theory Spec2Isabelle
  imports Main
begin

section \<open>Data model of server.go\<close>

text \<open>
  The embedding follows server.go (package easytcp). Go's \<open>int\<close> and \<open>time.Duration\<close>
  are only stored and compared with 0 there, never added or multiplied, so they are
  modelled as \<open>int\<close>. An interface or func field that can hold nil is an \<open>option\<close>.
  The pointers \<open>*Server\<close> and \<open>*ServerOption\<close> themselves are taken to be non-nil.
\<close>

type_synonym Duration = int

datatype Packer = DefaultPacker | UserPacker nat

datatype Codec = UserCodec nat

datatype Hook = UserHook nat

text \<open>
  A channel of \<open>struct{}\<close> that is only ever closed (\<open>accepting\<close>, \<open>stopped\<close>, a
  session's \<open>closed\<close>): a receive on it blocks while it is \<open>Open\<close> and succeeds once it
  is \<open>Closed\<close>; closing it a second time panics.
\<close>

datatype chan = Open | Closed

text \<open>
  Error values. \<open>ErrServerStopped\<close> is the package variable of line 59; \<open>NetError m t\<close>
  is a value implementing \<open>net.Error\<close> with message \<open>m\<close> whose \<open>Temporary()\<close> is
  \<open>t\<close>; \<open>PlainError m\<close> is any other error with message \<open>m\<close>, in particular what
  \<open>fmt.Errorf\<close> returns.
\<close>

datatype error = ErrServerStopped | NetError string bool | PlainError string

fun Error_msg :: "error \<Rightarrow> string" where
  "Error_msg ErrServerStopped = ''server stopped''"
| "Error_msg (NetError m t) = m"
| "Error_msg (PlainError m) = m"

text \<open>\<open>fmt.Errorf(prefix + "%s", err)\<close>: a new plain error, the text of \<open>err\<close> appended.\<close>

definition Errorf :: "string \<Rightarrow> error \<Rightarrow> error" where
  "Errorf prefix err = PlainError (prefix @ Error_msg err)"

text \<open>The test of line 134: \<open>ne, ok := err.(net.Error); ok && ne.Temporary()\<close>.\<close>

fun is_temporary_net_error :: "error \<Rightarrow> bool" where
  "is_temporary_net_error (NetError m t) = t"
| "is_temporary_net_error ErrServerStopped = False"
| "is_temporary_net_error (PlainError m) = False"

datatype panic = CloseOfClosedChannel | NilPointerDereference | InterfaceConversion

text \<open>
  How a call ends: it returns a value, it panics, or it is still blocked (in \<open>Accept\<close>)
  when the recorded behaviour of the environment ends.
\<close>

datatype 'a outcome = Returned 'a | Panicked panic | Blocked

record ServerOption =
  SocketReadBufferSize :: int
  SocketWriteBufferSize :: int
  SocketSendDelay :: bool
  ReadTimeout :: Duration
  WriteTimeout :: Duration
  opt_Packer :: "Packer option"
  opt_Codec :: "Codec option"
  ReqQueueSize :: int
  RespQueueSize :: int
  DoNotPrintRoutes :: bool
  WriteAttemptTimes :: int

text \<open>
  Modelled from the spec: the Router (router.go is not among the sources). Of the
  router the server only needs the bound of its shared request queue and whether
  \<open>stop\<close> has been called on it.
\<close>

record Router =
  reqQueueSize :: int
  router_stopped :: bool

text \<open>
  Modelled from the spec: \<open>newRouter\<close> (router.go is not among the sources), which
  makes the router with ``a single multi-producer/single-consumer bounded queue'' of
  the given bound.
\<close>

definition newRouter :: "int \<Rightarrow> Router" where
  "newRouter n = \<lparr>reqQueueSize = n, router_stopped = False\<rparr>"

record Listener =
  lis_Addr :: string
  lis_Close_err :: "error option"

record Server =
  Listener :: "Listener option"
  Packer :: "Packer option"
  Codec :: "Codec option"
  OnSessionCreate :: "Hook option"
  OnSessionClose :: "Hook option"
  socketReadBufferSize :: int
  socketWriteBufferSize :: int
  socketSendDelay :: bool
  readTimeout :: Duration
  writeTimeout :: Duration
  respQueueSize :: int
  router :: Router
  printRoutes :: bool
  accepting :: chan
  stopped :: chan
  writeAttemptTimes :: int

subsection \<open>Constants (lines 61 to 66)\<close>

definition DefaultReqQueueSize :: int where
  "DefaultReqQueueSize = 1024"

definition DefaultRespQueueSize :: int where
  "DefaultRespQueueSize = 1024"

definition DefaultWriteAttemptTimes :: int where
  "DefaultWriteAttemptTimes = 1"

text \<open>\<open>tempErrDelay = time.Millisecond * 5\<close>, in nanoseconds as \<open>time.Duration\<close> counts.\<close>

definition tempErrDelay :: Duration where
  "tempErrDelay = 1000000 * 5"

subsection \<open>NewServer (lines 69 to 97)\<close>

text \<open>
  \<open>NewServer\<close> writes the defaults into the caller's option struct and builds the
  server from it; the model returns both. Note that the source assigns
  \<open>DefaultRespQueueSize\<close> to the request queue and \<open>DefaultReqQueueSize\<close> to the
  response queue, and tests the two queue sizes with \<open><\<close> but the attempt count
  with \<open>\<le>\<close>.
\<close>

definition NewServer :: "ServerOption \<Rightarrow> ServerOption \<times> Server" where
  "NewServer opt0 =
    (let opt1 = (if opt_Packer opt0 = None then opt0\<lparr>opt_Packer := Some DefaultPacker\<rparr> else opt0);
         opt2 = (if ReqQueueSize opt1 < 0 then opt1\<lparr>ReqQueueSize := DefaultRespQueueSize\<rparr> else opt1);
         opt3 = (if RespQueueSize opt2 < 0 then opt2\<lparr>RespQueueSize := DefaultReqQueueSize\<rparr> else opt2);
         opt = (if WriteAttemptTimes opt3 \<le> 0
                then opt3\<lparr>WriteAttemptTimes := DefaultWriteAttemptTimes\<rparr> else opt3)
     in (opt,
         \<lparr>Listener = None,
          Packer = opt_Packer opt,
          Codec = opt_Codec opt,
          OnSessionCreate = None,
          OnSessionClose = None,
          socketReadBufferSize = SocketReadBufferSize opt,
          socketWriteBufferSize = SocketWriteBufferSize opt,
          socketSendDelay = SocketSendDelay opt,
          readTimeout = ReadTimeout opt,
          writeTimeout = WriteTimeout opt,
          respQueueSize = RespQueueSize opt,
          router = newRouter (ReqQueueSize opt),
          printRoutes = (\<not> DoNotPrintRoutes opt),
          accepting = Open,
          stopped = Open,
          writeAttemptTimes = WriteAttemptTimes opt\<rparr>))"

section \<open>Connections, sessions and the shared state\<close>

text \<open>
  An accepted connection. \<open>is_TCPConn\<close> says whether its dynamic type is
  \<open>*net.TCPConn\<close> (the assertion \<open>conn.(*net.TCPConn)\<close> panics otherwise); the other
  fields are what the operating system answers to each call on it.
\<close>

record Conn =
  conn_id :: nat
  is_TCPConn :: bool
  SetReadBuffer_err :: "error option"
  SetWriteBuffer_err :: "error option"
  SetNoDelay_err :: "error option"
  conn_Close_err :: "error option"

record SessionOption =
  so_Packer :: "Packer option"
  so_Codec :: "Codec option"
  so_respQueueSize :: int

text \<open>
  Modelled from the spec: the Session (session.go is not among the sources): one per
  connection, with the packer and codec it was built with, the bound of its private
  response queue, and a one-shot close signal.
\<close>

record Session =
  sess_id :: nat
  sess_conn :: Conn
  sess_Packer :: "Packer option"
  sess_Codec :: "Codec option"
  sess_respQueueSize :: int
  sess_closed :: chan
  sess_conn_closed :: bool

text \<open>
  What a goroutine of server.go does that another party can see, in program order.
  Log lines are left out.
\<close>

datatype event =
    EvCloseStopped
  | EvSessionClose nat
  | EvRouterStop
  | EvListenerClose
  | EvResolveTCPAddr string
  | EvListenTCP string
  | EvPrintHandlers string
  | EvGoConsumeRequest
  | EvCloseAccepting
  | EvAccept
  | EvSleep Duration
  | EvSetReadBuffer nat int
  | EvSetWriteBuffer nat int
  | EvSetNoDelay nat bool
  | EvGoHandleConn nat
  | EvNewSession nat nat
  | EvSessionsAdd nat
  | EvGoOnSessionCreate Hook nat
  | EvGoReadInbound nat Duration
  | EvGoWriteOutbound nat Duration int
  | EvRecvClosed nat
  | EvSessionsRemove nat
  | EvGoOnSessionClose Hook nat
  | EvConnClose nat

text \<open>
  The state the functions of server.go work on: the \<open>Server\<close> object behind the
  receiver \<open>s\<close>, the session objects (by identifier), the process-wide registry behind
  \<open>Sessions()\<close> (the identifiers in it, in the order \<open>Range\<close> visits them), the
  connections handed to a new \<open>handleConn\<close> goroutine, and the trace of the goroutine
  being followed.
\<close>

record world =
  srv :: Server
  heap :: "nat \<Rightarrow> Session option"
  registry :: "nat list"
  next_id :: nat
  spawned :: "Conn list"
  trace :: "event list"

definition emit :: "event \<Rightarrow> world \<Rightarrow> world" where
  "emit e w = w\<lparr>trace := trace w @ [e]\<rparr>"

text \<open>
  Modelled from the spec: \<open>newSession\<close> (session.go is not among the sources). A
  session is ``created on accept'' with the connection, the packer, the codec and the
  queue bound it is given; it gets a fresh identifier and its close signal has not
  fired.
\<close>

definition newSession :: "Conn \<Rightarrow> SessionOption \<Rightarrow> world \<Rightarrow> nat \<times> world" where
  "newSession conn opt w =
    (let sid = next_id w;
         sess = \<lparr>sess_id = sid, sess_conn = conn, sess_Packer = so_Packer opt,
                 sess_Codec = so_Codec opt, sess_respQueueSize = so_respQueueSize opt,
                 sess_closed = Open, sess_conn_closed = False\<rparr>
     in (sid, w\<lparr>heap := (heap w)(sid \<mapsto> sess), next_id := Suc sid\<rparr>))"

text \<open>
  Modelled from the spec: \<open>Session.Close\<close> (session.go is not among the sources).
  ``Closing is idempotent: the first trigger closes the underlying connection and fires
  the one-shot close signal; all other triggers are no-ops.''
\<close>

definition Session_Close :: "nat \<Rightarrow> world \<Rightarrow> world" where
  "Session_Close sid w =
    (case heap w sid of
       None \<Rightarrow> w
     | Some sess \<Rightarrow>
         if sess_closed sess = Closed then w
         else w\<lparr>heap := (heap w)(sid \<mapsto> sess\<lparr>sess_closed := Closed, sess_conn_closed := True\<rparr>)\<rparr>)"

text \<open>
  Modelled from the spec: \<open>Sessions().Add\<close> (the session registry is not among the
  sources), on a ``map from session identifier to Session, supporting
  add/remove/iterate''.
\<close>

definition Sessions_Add :: "nat \<Rightarrow> world \<Rightarrow> world" where
  "Sessions_Add sid w = w\<lparr>registry := removeAll sid (registry w) @ [sid]\<rparr>"

text \<open>
  Modelled from the spec: \<open>Sessions().Remove\<close> (the session registry is not among the
  sources); ``removal from the registry never itself closes the Session''.
\<close>

definition Sessions_Remove :: "nat \<Rightarrow> world \<Rightarrow> world" where
  "Sessions_Remove sid w = w\<lparr>registry := removeAll sid (registry w)\<rparr>"

text \<open>
  Modelled from the spec: \<open>Router.stop\<close> (router.go is not among the sources).
  ``Router shutdown stops accepting further queue items and lets already-dequeued work
  drain.''
\<close>

definition Router_stop :: "world \<Rightarrow> world" where
  "Router_stop w = w\<lparr>srv := (srv w)\<lparr>router := (router (srv w))\<lparr>router_stopped := True\<rparr>\<rparr>\<rparr>"

text \<open>Whether the close signal of session \<open>sid\<close> has fired.\<close>

definition close_signal_fired :: "nat \<Rightarrow> world \<Rightarrow> bool" where
  "close_signal_fired sid w =
    (case heap w sid of None \<Rightarrow> False | Some sess \<Rightarrow> sess_closed sess = Closed)"

section \<open>The operations of server.go\<close>

subsection \<open>isStopped (lines 220 to 227)\<close>

definition isStopped :: "world \<Rightarrow> bool" where
  "isStopped w = (case stopped (srv w) of Closed \<Rightarrow> True | Open \<Rightarrow> False)"

subsection \<open>Stop (lines 189 to 203)\<close>

text \<open>The \<open>Range\<close> of lines 194 to 198: the callback calls \<open>Close\<close> on each entry.\<close>

fun Range_Close :: "nat list \<Rightarrow> world \<Rightarrow> world" where
  "Range_Close [] w = w"
| "Range_Close (sid # sids) w = Range_Close sids (Session_Close sid (emit (EvSessionClose sid) w))"

text \<open>
  \<open>close(s.stopped)\<close> panics on a closed channel, and \<open>s.Listener.Close()\<close> on a
  nil \<open>Listener\<close> (a server on which \<open>Serve\<close> never got as far as line 110).
\<close>

definition Stop :: "world \<Rightarrow> error option outcome \<times> world" where
  "Stop w =
    (case stopped (srv w) of
       Closed \<Rightarrow> (Panicked CloseOfClosedChannel, w)
     | Open \<Rightarrow>
        (let w1 = emit EvCloseStopped (w\<lparr>srv := (srv w)\<lparr>stopped := Closed\<rparr>\<rparr>);
             w2 = Range_Close (registry w1) w1;
             w3 = Router_stop (emit EvRouterStop w2)
         in case Listener (srv w3) of
              None \<Rightarrow> (Panicked NilPointerDereference, w3)
            | Some lis \<Rightarrow> (Returned (lis_Close_err lis), emit EvListenerClose w3)))"

subsection \<open>acceptLoop (lines 120 to 158)\<close>

text \<open>
  What the environment does during one pass through the loop body: what
  \<open>s.Listener.Accept()\<close> returns, whether a concurrent \<open>Stop\<close> has closed
  \<open>s.stopped\<close> between the test of line 123 and the return of \<open>Accept\<close>, and whether
  one has closed it between the test of line 130 (or the return of a successful
  \<open>Accept\<close>) and the next test of line 123. The loop reads nothing else that another
  goroutine writes.
\<close>

record accept_io =
  stop_during_accept :: bool
  accept_result :: "error + Conn"
  stop_after_accept :: bool

definition env_close_stopped :: "bool \<Rightarrow> world \<Rightarrow> world" where
  "env_close_stopped b w = (if b then w\<lparr>srv := (srv w)\<lparr>stopped := Closed\<rparr>\<rparr> else w)"

text \<open>
  Lines 141 to 155, one definition for each \<open>if\<close>: \<open>None\<close> when control falls through
  to the next statement, \<open>Some\<close> when \<open>acceptLoop\<close> ends there.
\<close>

definition set_read_buffer :: "Conn \<Rightarrow> world \<Rightarrow> error outcome option \<times> world" where
  "set_read_buffer conn w =
    (if socketReadBufferSize (srv w) > 0 then
       (if \<not> is_TCPConn conn then (Some (Panicked InterfaceConversion), w)
        else
          (let w1 = emit (EvSetReadBuffer (conn_id conn) (socketReadBufferSize (srv w))) w
           in case SetReadBuffer_err conn of
                Some err \<Rightarrow> (Some (Returned (Errorf ''conn set read buffer err: '' err)), w1)
              | None \<Rightarrow> (None, w1)))
     else (None, w))"

definition set_write_buffer :: "Conn \<Rightarrow> world \<Rightarrow> error outcome option \<times> world" where
  "set_write_buffer conn w =
    (if socketWriteBufferSize (srv w) > 0 then
       (if \<not> is_TCPConn conn then (Some (Panicked InterfaceConversion), w)
        else
          (let w1 = emit (EvSetWriteBuffer (conn_id conn) (socketWriteBufferSize (srv w))) w
           in case SetWriteBuffer_err conn of
                Some err \<Rightarrow> (Some (Returned (Errorf ''conn set write buffer err: '' err)), w1)
              | None \<Rightarrow> (None, w1)))
     else (None, w))"

definition set_no_delay :: "Conn \<Rightarrow> world \<Rightarrow> error outcome option \<times> world" where
  "set_no_delay conn w =
    (if socketSendDelay (srv w) then
       (if \<not> is_TCPConn conn then (Some (Panicked InterfaceConversion), w)
        else
          (let w1 = emit (EvSetNoDelay (conn_id conn) False) w
           in case SetNoDelay_err conn of
                Some err \<Rightarrow> (Some (Returned (Errorf ''conn set no delay err: '' err)), w1)
              | None \<Rightarrow> (None, w1)))
     else (None, w))"

text \<open>\<open>go s.handleConn(conn)\<close>: the goroutine is started, it has not run yet.\<close>

definition go_handleConn :: "Conn \<Rightarrow> world \<Rightarrow> world" where
  "go_handleConn conn w = (emit (EvGoHandleConn (conn_id conn)) w)\<lparr>spawned := spawned w @ [conn]\<rparr>"

text \<open>
  Lines 128 to 156, one pass through the loop body after the test of line 123:
  \<open>None\<close> when control goes back to the top of the loop (\<open>continue\<close>, or the end of the
  body), \<open>Some\<close> when \<open>acceptLoop\<close> ends.
\<close>

definition loop_body :: "accept_io \<Rightarrow> world \<Rightarrow> error outcome option \<times> world" where
  "loop_body io w =
    (let w1 = env_close_stopped (stop_during_accept io) (emit EvAccept w) in
     case accept_result io of
       Inl err \<Rightarrow>
         if isStopped w1 then (Some (Returned ErrServerStopped), w1)
         else if is_temporary_net_error err then
           (None, env_close_stopped (stop_after_accept io) (emit (EvSleep tempErrDelay) w1))
         else (Some (Returned (Errorf ''accept err: '' err)), w1)
     | Inr conn \<Rightarrow>
         (case set_read_buffer conn w1 of
            (Some out, w2) \<Rightarrow> (Some out, w2)
          | (None, w2) \<Rightarrow>
              (case set_write_buffer conn w2 of
                 (Some out, w3) \<Rightarrow> (Some out, w3)
               | (None, w3) \<Rightarrow>
                   (case set_no_delay conn w3 of
                      (Some out, w4) \<Rightarrow> (Some out, w4)
                    | (None, w4) \<Rightarrow>
                        (None, env_close_stopped (stop_after_accept io) (go_handleConn conn w4))))))"

text \<open>
  The \<open>for\<close> of lines 122 to 157 against a finite record of the environment. When the
  record ends with the server not stopped, the loop is blocked in \<open>Accept\<close>. Calling
  \<open>Accept\<close> on a nil \<open>Listener\<close> panics.
\<close>

fun for_loop :: "accept_io list \<Rightarrow> world \<Rightarrow> error outcome \<times> world" where
  "for_loop [] w =
    (if isStopped w then (Returned ErrServerStopped, w)
     else case Listener (srv w) of
            None \<Rightarrow> (Panicked NilPointerDereference, w)
          | Some lis \<Rightarrow> (Blocked, emit EvAccept w))"
| "for_loop (io # ios) w =
    (if isStopped w then (Returned ErrServerStopped, w)
     else case Listener (srv w) of
            None \<Rightarrow> (Panicked NilPointerDereference, w)
          | Some lis \<Rightarrow>
              (case loop_body io w of
                 (Some out, w') \<Rightarrow> (out, w')
               | (None, w') \<Rightarrow> for_loop ios w'))"

definition acceptLoop :: "accept_io list \<Rightarrow> world \<Rightarrow> error outcome \<times> world" where
  "acceptLoop ios w =
    (case accepting (srv w) of
       Closed \<Rightarrow> (Panicked CloseOfClosedChannel, w)
     | Open \<Rightarrow> for_loop ios (emit EvCloseAccepting (w\<lparr>srv := (srv w)\<lparr>accepting := Closed\<rparr>\<rparr>)))"

subsection \<open>Serve (lines 101 to 116)\<close>

text \<open>
  \<open>net.ResolveTCPAddr("tcp", _)\<close> and \<open>net.ListenTCP("tcp", _)\<close> belong to the
  standard library; what they answer is a parameter. A resolved address is kept as
  its text.
\<close>

record net_env =
  ResolveTCPAddr :: "string \<Rightarrow> error + string"
  ListenTCP :: "string \<Rightarrow> error + Listener"

definition Serve :: "net_env \<Rightarrow> accept_io list \<Rightarrow> string \<Rightarrow> world \<Rightarrow> error outcome \<times> world" where
  "Serve net ios addr w =
    (let w1 = emit (EvResolveTCPAddr addr) w in
     case ResolveTCPAddr net addr of
       Inl err \<Rightarrow> (Returned err, w1)
     | Inr address \<Rightarrow>
         (let w2 = emit (EvListenTCP address) w1 in
          case ListenTCP net address of
            Inl err \<Rightarrow> (Returned err, w2)
          | Inr lis \<Rightarrow>
              (let w3 = w2\<lparr>srv := (srv w2)\<lparr>Listener := Some lis\<rparr>\<rparr>;
                   w4 = (if printRoutes (srv w3)
                         then emit (EvPrintHandlers (''tcp://'' @ lis_Addr lis)) w3 else w3);
                   w5 = emit EvGoConsumeRequest w4
               in acceptLoop ios w5)))"

subsection \<open>handleConn (lines 163 to 186)\<close>

text \<open>
  \<open>handleConn\<close> runs in a goroutine of its own and blocks once, at the receive
  \<open><-sess.closed\<close> of line 177. \<open>handleConn_begin\<close> is lines 164 to 175,
  \<open>handleConn_end\<close> lines 178 to 185. The fields of \<open>s\<close> are read when the statement
  runs.
\<close>

definition handleConn_begin :: "Conn \<Rightarrow> world \<Rightarrow> nat \<times> world" where
  "handleConn_begin conn w =
    (case newSession conn \<lparr>so_Packer = Packer (srv w), so_Codec = Codec (srv w),
                            so_respQueueSize = respQueueSize (srv w)\<rparr> w of
       (sid, w0) \<Rightarrow>
         (let w1 = emit (EvNewSession sid (conn_id conn)) w0;
              w2 = Sessions_Add sid (emit (EvSessionsAdd sid) w1);
              w3 = (case OnSessionCreate (srv w2) of
                      None \<Rightarrow> w2
                    | Some hook \<Rightarrow> emit (EvGoOnSessionCreate hook sid) w2);
              w4 = emit (EvGoReadInbound sid (readTimeout (srv w3))) w3;
              w5 = emit (EvGoWriteOutbound sid (writeTimeout (srv w4)) (writeAttemptTimes (srv w4))) w4
          in (sid, w5)))"

definition handleConn_end :: "Conn \<Rightarrow> nat \<Rightarrow> world \<Rightarrow> world" where
  "handleConn_end conn sid w =
    (let w1 = Sessions_Remove sid (emit (EvSessionsRemove sid) w);
         w2 = (case OnSessionClose (srv w1) of
                 None \<Rightarrow> w1
               | Some hook \<Rightarrow> emit (EvGoOnSessionClose hook sid) w1)
     in emit (EvConnClose (conn_id conn)) w2)"

text \<open>
  Where the goroutine is: not started on its body, blocked at line 177 on the session
  it made, or returned.
\<close>

datatype hc_state = HC_Start | HC_Waiting nat | HC_Done

text \<open>
  One attempt of the goroutine to go on. At line 177 it goes on only when the close
  signal of its session has fired; otherwise it stays blocked and nothing changes.
\<close>

fun handleConn_step :: "Conn \<Rightarrow> hc_state \<times> world \<Rightarrow> hc_state \<times> world" where
  "handleConn_step conn (HC_Start, w) =
    (case handleConn_begin conn w of (sid, w') \<Rightarrow> (HC_Waiting sid, w'))"
| "handleConn_step conn (HC_Waiting sid, w) =
    (if close_signal_fired sid w
     then (HC_Done, handleConn_end conn sid (emit (EvRecvClosed sid) w))
     else (HC_Waiting sid, w))"
| "handleConn_step conn (HC_Done, w) = (HC_Done, w)"

text \<open>
  A schedule interleaves the goroutine with the rest of the program: \<open>Run\<close> lets it try
  a step, \<open>EnvSessionClose sid\<close> is some other goroutine (the session's inbound or
  outbound task, or \<open>Stop\<close>) calling \<open>Close\<close> on session \<open>sid\<close>.
\<close>

datatype sched = Run | EnvSessionClose nat

fun handleConn_run :: "Conn \<Rightarrow> sched list \<Rightarrow> hc_state \<times> world \<Rightarrow> hc_state \<times> world" where
  "handleConn_run conn [] cfg = cfg"
| "handleConn_run conn (Run # ss) cfg = handleConn_run conn ss (handleConn_step conn cfg)"
| "handleConn_run conn (EnvSessionClose sid # ss) (st, w) =
     handleConn_run conn ss (st, Session_Close sid w)"

text \<open>The events a goroutine added to the trace between the states \<open>w\<close> and \<open>w'\<close>.\<close>

definition new_events :: "world \<Rightarrow> world \<Rightarrow> event list" where
  "new_events w w' = drop (length (trace w)) (trace w')"

section \<open>Concrete inputs\<close>

definition opt_zero :: ServerOption where
  "opt_zero = \<lparr>SocketReadBufferSize = 0, SocketWriteBufferSize = 0, SocketSendDelay = False,
     ReadTimeout = 0, WriteTimeout = 0, opt_Packer = None, opt_Codec = None,
     ReqQueueSize = 0, RespQueueSize = 0, DoNotPrintRoutes = False, WriteAttemptTimes = 0\<rparr>"

definition opt_tuned :: ServerOption where
  "opt_tuned = \<lparr>SocketReadBufferSize = 4096, SocketWriteBufferSize = 2048, SocketSendDelay = True,
     ReadTimeout = 0, WriteTimeout = 0, opt_Packer = None, opt_Codec = None,
     ReqQueueSize = - 1, RespQueueSize = - 1, DoNotPrintRoutes = True, WriteAttemptTimes = 3\<rparr>"

definition lis_ok :: Listener where
  "lis_ok = \<lparr>lis_Addr = ''127.0.0.1:8000'', lis_Close_err = None\<rparr>"

definition lis_bad_close :: Listener where
  "lis_bad_close = \<lparr>lis_Addr = ''127.0.0.1:8000'',
     lis_Close_err = Some (PlainError ''use of closed network connection'')\<rparr>"

definition conn_ok :: Conn where
  "conn_ok = \<lparr>conn_id = 7, is_TCPConn = True, SetReadBuffer_err = None,
     SetWriteBuffer_err = None, SetNoDelay_err = None, conn_Close_err = None\<rparr>"

definition conn_bad_read_buffer :: Conn where
  "conn_bad_read_buffer = \<lparr>conn_id = 8, is_TCPConn = True,
     SetReadBuffer_err = Some (PlainError ''invalid argument''),
     SetWriteBuffer_err = None, SetNoDelay_err = None, conn_Close_err = None\<rparr>"

definition sess_open :: "nat \<Rightarrow> Session" where
  "sess_open sid = \<lparr>sess_id = sid, sess_conn = conn_ok, sess_Packer = Some DefaultPacker,
     sess_Codec = None, sess_respQueueSize = 0, sess_closed = Open, sess_conn_closed = False\<rparr>"

text \<open>A server made by \<open>NewServer\<close>, listening, with the sessions 1 and 2 registered.\<close>

definition w_serving :: "ServerOption \<Rightarrow> Listener \<Rightarrow> world" where
  "w_serving opt lis =
     \<lparr>srv = (snd (NewServer opt))\<lparr>Listener := Some lis, accepting := Closed\<rparr>,
      heap = [1 \<mapsto> sess_open 1, 2 \<mapsto> sess_open 2],
      registry = [2, 1], next_id = 3, spawned = [], trace = []\<rparr>"

text \<open>
  A server as the example program sets it up: made by \<open>NewServer\<close>, both hooks
  assigned, \<open>Serve\<close> not called yet, no session so far.
\<close>

definition w_new :: "ServerOption \<Rightarrow> world" where
  "w_new opt =
     \<lparr>srv = (snd (NewServer opt))\<lparr>OnSessionCreate := Some (UserHook 1),
                                   OnSessionClose := Some (UserHook 2)\<rparr>,
      heap = Map.empty, registry = [], next_id = 1, spawned = [], trace = []\<rparr>"

definition net_ok :: net_env where
  "net_ok = \<lparr>ResolveTCPAddr = (\<lambda>a. Inr a), ListenTCP = (\<lambda>a. Inr lis_ok)\<rparr>"

definition net_bad_addr :: net_env where
  "net_bad_addr = \<lparr>ResolveTCPAddr = (\<lambda>a. Inl (PlainError ''missing port in address'')),
     ListenTCP = (\<lambda>a. Inr lis_ok)\<rparr>"

definition net_in_use :: net_env where
  "net_in_use = \<lparr>ResolveTCPAddr = (\<lambda>a. Inr a),
     ListenTCP = (\<lambda>a. Inl (PlainError ''address already in use''))\<rparr>"

text \<open>The state in which \<open>Serve\<close>, called with \<open>'':8000''\<close>, enters the loop.\<close>

definition w_started :: "ServerOption \<Rightarrow> world" where
  "w_started opt =
     (w_new opt)\<lparr>srv := (srv (w_new opt))\<lparr>Listener := Some lis_ok, accepting := Closed\<rparr>,
       trace := [EvResolveTCPAddr '':8000'', EvListenTCP '':8000'']
         @ (if printRoutes (srv (w_new opt))
            then [EvPrintHandlers (''tcp://'' @ lis_Addr lis_ok)] else [])
         @ [EvGoConsumeRequest, EvCloseAccepting]\<rparr>"

text \<open>
  Passes through the loop body: \<open>Accept\<close> returns the error of a listener closed by
  \<open>Stop\<close>; it returns a temporary error while \<open>Stop\<close> runs; it returns a temporary
  error; it returns a permanent error; it returns a connection.
\<close>

definition io_closed_listener :: accept_io where
  "io_closed_listener = \<lparr>stop_during_accept = True,
     accept_result = Inl (PlainError ''use of closed network connection''),
     stop_after_accept = False\<rparr>"

definition io_stopped_timeout :: accept_io where
  "io_stopped_timeout = \<lparr>stop_during_accept = True,
     accept_result = Inl (NetError ''i/o timeout'' True), stop_after_accept = False\<rparr>"

definition io_timeout :: accept_io where
  "io_timeout = \<lparr>stop_during_accept = False,
     accept_result = Inl (NetError ''i/o timeout'' True), stop_after_accept = False\<rparr>"

definition io_fatal :: accept_io where
  "io_fatal = \<lparr>stop_during_accept = False,
     accept_result = Inl (PlainError ''too many open files''), stop_after_accept = False\<rparr>"

definition io_conn :: "Conn \<Rightarrow> accept_io" where
  "io_conn c = \<lparr>stop_during_accept = False, accept_result = Inr c, stop_after_accept = False\<rparr>"

section \<open>The invariant of a handleConn goroutine\<close>

text \<open>
  For a goroutine that began in \<open>w0\<close>: before its first step it has added nothing to
  the trace; while it waits at line 177 its session is registered and it has neither
  removed a session nor started the session-closed hook; once it is past line 177,
  whatever it removed or passed to the hook has its close signal fired.
\<close>

definition hc_inv :: "world \<Rightarrow> hc_state \<times> world \<Rightarrow> bool" where
  "hc_inv w0 cfg =
    (case cfg of (st, w') \<Rightarrow>
      (\<exists>evs. trace w' = trace w0 @ evs \<and>
        (case st of
           HC_Start \<Rightarrow> evs = []
         | HC_Waiting s \<Rightarrow> s \<in> set (registry w')
              \<and> (\<forall>sid h. EvSessionsRemove sid \<notin> set evs \<and> EvGoOnSessionClose h sid \<notin> set evs)
         | HC_Done \<Rightarrow>
             (\<forall>sid h. EvSessionsRemove sid \<in> set evs \<or> EvGoOnSessionClose h sid \<in> set evs
                \<longrightarrow> close_signal_fired sid w'))))"

section \<open>Auxiliary facts\<close>

lemma trace_Session_Close: "trace (Session_Close sid w) = trace w"
  by (simp add: Session_Close_def split: option.splits)

lemma srv_Session_Close: "srv (Session_Close sid w) = srv w"
  by (simp add: Session_Close_def split: option.splits)

lemma registry_Session_Close: "registry (Session_Close sid w) = registry w"
  by (simp add: Session_Close_def split: option.splits)

lemma trace_Range_Close: "trace (Range_Close sids w) = trace w @ map EvSessionClose sids"
  by (induction sids arbitrary: w) (simp_all add: trace_Session_Close emit_def)

lemma srv_Range_Close: "srv (Range_Close sids w) = srv w"
  by (induction sids arbitrary: w) (simp_all add: srv_Session_Close emit_def)

lemma registry_Range_Close: "registry (Range_Close sids w) = registry w"
  by (induction sids arbitrary: w) (simp_all add: registry_Session_Close emit_def)

lemma fired_Session_Close_same:
  "heap w sid \<noteq> None \<Longrightarrow> close_signal_fired sid (Session_Close sid w)"
  by (auto simp add: Session_Close_def close_signal_fired_def split: option.splits)

lemma fired_Session_Close_mono:
  "close_signal_fired sid w \<Longrightarrow> close_signal_fired sid (Session_Close sid' w)"
  by (auto simp add: Session_Close_def close_signal_fired_def split: option.splits)

lemma dom_Session_Close:
  "heap w sid \<noteq> None \<Longrightarrow> heap (Session_Close sid' (emit e w)) sid \<noteq> None"
  by (auto simp add: Session_Close_def emit_def split: option.splits)

lemma fired_emit: "close_signal_fired sid (emit e w) = close_signal_fired sid w"
  by (simp add: close_signal_fired_def emit_def)

lemma heap_emit: "heap (emit e w) = heap w"
  by (simp add: emit_def)

lemma fired_Range_Close_mono:
  "close_signal_fired sid w \<Longrightarrow> close_signal_fired sid (Range_Close sids w)"
  by (induction sids arbitrary: w) (simp_all add: fired_Session_Close_mono fired_emit)

lemma fired_Range_Close:
  "sid \<in> set sids \<Longrightarrow> heap w sid \<noteq> None \<Longrightarrow> close_signal_fired sid (Range_Close sids w)"
proof (induction sids arbitrary: w)
  case Nil
  then show ?case by simp
next
  case (Cons a sids)
  show ?case
  proof (cases "a = sid")
    case True
    then show ?thesis using Cons.prems
      by (simp add: fired_Range_Close_mono fired_Session_Close_same heap_emit)
  next
    case False
    with Cons.prems have "sid \<in> set sids" by simp
    then show ?thesis
      using Cons.IH [OF _ dom_Session_Close [OF Cons.prems(2)]] by simp
  qed
qed

lemma isStopped_emit: "isStopped (emit e w) = isStopped w"
  by (simp add: isStopped_def emit_def)

lemma isStopped_env_close_stopped: "isStopped (env_close_stopped b w) = (b \<or> isStopped w)"
  by (simp add: isStopped_def env_close_stopped_def)

lemma isStopped_trace_update: "isStopped (w\<lparr>trace := t\<rparr>) = isStopped w"
  by (simp add: isStopped_def)

lemma env_close_stopped_fields:
  "socketReadBufferSize (srv (env_close_stopped b w)) = socketReadBufferSize (srv w)"
  "socketWriteBufferSize (srv (env_close_stopped b w)) = socketWriteBufferSize (srv w)"
  "socketSendDelay (srv (env_close_stopped b w)) = socketSendDelay (srv w)"
  "trace (env_close_stopped b w) = trace w"
  "spawned (env_close_stopped b w) = spawned w"
  by (simp_all add: env_close_stopped_def)

lemma isStopped_Stop: "isStopped (snd (Stop w))"
  by (simp add: isStopped_def Stop_def Let_def emit_def Router_stop_def srv_Range_Close
      split: chan.splits option.splits)

lemma for_loop_stopped: "isStopped w \<Longrightarrow> for_loop ios w = (Returned ErrServerStopped, w)"
  by (cases ios) simp_all

lemma for_loop_Cons:
  "\<not> isStopped w \<Longrightarrow> Listener (srv w) \<noteq> None \<Longrightarrow>
   for_loop (io # ios) w =
     (case loop_body io w of (Some out, w') \<Rightarrow> (out, w') | (None, w') \<Rightarrow> for_loop ios w')"
  by auto

lemma loop_body_accepted:
  "accept_result io = Inr c \<Longrightarrow>
   loop_body io w =
     (let w1 = env_close_stopped (stop_during_accept io) (emit EvAccept w) in
      case set_read_buffer c w1 of
        (Some out, w2) \<Rightarrow> (Some out, w2)
      | (None, w2) \<Rightarrow>
          (case set_write_buffer c w2 of
             (Some out, w3) \<Rightarrow> (Some out, w3)
           | (None, w3) \<Rightarrow>
               (case set_no_delay c w3 of
                  (Some out, w4) \<Rightarrow> (Some out, w4)
                | (None, w4) \<Rightarrow>
                    (None, env_close_stopped (stop_after_accept io) (go_handleConn c w4)))))"
  by (simp add: loop_body_def)

text \<open>\<open>Serve\<close> returns what the loop returns, once the listener is open.\<close>

lemma Serve_runs_for_loop:
  assumes "ResolveTCPAddr net addr = Inr a" and "ListenTCP net a = Inr lis"
    and "accepting (srv w) = Open"
  shows "Serve net ios addr w =
     for_loop ios
       (w\<lparr>srv := (srv w)\<lparr>Listener := Some lis, accepting := Closed\<rparr>,
          trace := trace w @ [EvResolveTCPAddr addr, EvListenTCP a]
            @ (if printRoutes (srv w) then [EvPrintHandlers (''tcp://'' @ lis_Addr lis)] else [])
            @ [EvGoConsumeRequest, EvCloseAccepting]\<rparr>)"
  using assms by (simp add: Serve_def acceptLoop_def Let_def emit_def)

subsection \<open>The concrete inputs\<close>

lemma w_serving_simps:
  "\<not> isStopped (w_serving opt lis)"
  "Listener (srv (w_serving opt lis)) = Some lis"
  "stopped (srv (w_serving opt lis)) = Open"
  "trace (w_serving opt lis) = []"
  "spawned (w_serving opt lis) = []"
  "registry (w_serving opt lis) = [2, 1]"
  by (simp_all add: w_serving_def isStopped_def NewServer_def Let_def)

lemma w_serving_heap:
  "heap (w_serving opt lis) (Suc 0) = Some (sess_open 1)"
  "heap (w_serving opt lis) 2 = Some (sess_open 2)"
  by (simp_all add: w_serving_def)

lemma lis_simps:
  "lis_Close_err lis_ok = None"
  "lis_Close_err lis_bad_close = Some (PlainError ''use of closed network connection'')"
  by (simp_all add: lis_ok_def lis_bad_close_def)

lemma w_serving_tuned:
  "socketReadBufferSize (srv (w_serving opt_tuned lis)) = 4096"
  "socketWriteBufferSize (srv (w_serving opt_tuned lis)) = 2048"
  "socketSendDelay (srv (w_serving opt_tuned lis))"
  by (simp_all add: w_serving_def NewServer_def Let_def opt_tuned_def)

lemma w_new_simps:
  "trace (w_new opt) = []"
  "next_id (w_new opt) = 1"
  "registry (w_new opt) = []"
  "OnSessionCreate (srv (w_new opt)) = Some (UserHook 1)"
  "OnSessionClose (srv (w_new opt)) = Some (UserHook 2)"
  "accepting (srv (w_new opt)) = Open"
  "stopped (srv (w_new opt)) = Open"
  by (simp_all add: w_new_def NewServer_def Let_def)

lemma w_new_tuned:
  "readTimeout (srv (w_new opt_tuned)) = 0"
  "writeTimeout (srv (w_new opt_tuned)) = 0"
  "writeAttemptTimes (srv (w_new opt_tuned)) = 3"
  "socketReadBufferSize (srv (w_new opt_tuned)) = 4096"
  "printRoutes (srv (w_new opt_tuned)) = False"
  by (simp_all add: w_new_def NewServer_def Let_def opt_tuned_def)

lemma io_simps:
  "accept_result io_timeout = Inl (NetError ''i/o timeout'' True)"
  "\<not> stop_during_accept io_timeout"
  "\<not> stop_after_accept io_timeout"
  "accept_result io_fatal = Inl (PlainError ''too many open files'')"
  "\<not> stop_during_accept io_fatal"
  "accept_result io_closed_listener = Inl (PlainError ''use of closed network connection'')"
  "stop_during_accept io_closed_listener"
  "accept_result io_stopped_timeout = Inl (NetError ''i/o timeout'' True)"
  "stop_during_accept io_stopped_timeout"
  "accept_result (io_conn c) = Inr c"
  "\<not> stop_during_accept (io_conn c)"
  "\<not> stop_after_accept (io_conn c)"
  by (simp_all add: io_timeout_def io_fatal_def io_closed_listener_def io_stopped_timeout_def
      io_conn_def)

subsection \<open>handleConn\<close>

lemma handleConn_begin_sid: "fst (handleConn_begin conn w) = next_id w"
  by (simp add: handleConn_begin_def newSession_def Let_def)

lemma handleConn_begin_trace_eq:
  "trace (snd (handleConn_begin conn w)) =
     trace w @ [EvNewSession (next_id w) (conn_id conn), EvSessionsAdd (next_id w)]
       @ (case OnSessionCreate (srv w) of None \<Rightarrow> []
          | Some hook \<Rightarrow> [EvGoOnSessionCreate hook (next_id w)])
       @ [EvGoReadInbound (next_id w) (readTimeout (srv w)),
          EvGoWriteOutbound (next_id w) (writeTimeout (srv w)) (writeAttemptTimes (srv w))]"
  by (simp add: handleConn_begin_def newSession_def Let_def emit_def Sessions_Add_def
      split: option.splits)

lemma handleConn_begin_trace:
  "\<exists>evs. trace (snd (handleConn_begin conn w)) = trace w @ evs
     \<and> (\<forall>sid h. EvSessionsRemove sid \<notin> set evs \<and> EvGoOnSessionClose h sid \<notin> set evs)"
  unfolding handleConn_begin_trace_eq by (simp split: option.splits)

lemma handleConn_begin_registry:
  "next_id w \<in> set (registry (snd (handleConn_begin conn w)))"
  by (simp add: handleConn_begin_def newSession_def Let_def emit_def Sessions_Add_def
      split: option.splits)

lemma handleConn_begin_heap:
  "heap (snd (handleConn_begin conn w)) (next_id w) =
     Some \<lparr>sess_id = next_id w, sess_conn = conn, sess_Packer = Packer (srv w),
           sess_Codec = Codec (srv w), sess_respQueueSize = respQueueSize (srv w),
           sess_closed = Open, sess_conn_closed = False\<rparr>"
  by (simp add: handleConn_begin_def newSession_def Let_def emit_def Sessions_Add_def
      split: option.splits)

lemma handleConn_end_fired:
  "close_signal_fired sid (handleConn_end conn sid' w) = close_signal_fired sid w"
  by (simp add: handleConn_end_def Let_def emit_def Sessions_Remove_def close_signal_fired_def
      split: option.splits)

lemma handleConn_end_trace_eq:
  "trace (handleConn_end conn sid w) =
     trace w @ [EvSessionsRemove sid]
       @ (case OnSessionClose (srv w) of None \<Rightarrow> []
          | Some hook \<Rightarrow> [EvGoOnSessionClose hook sid])
       @ [EvConnClose (conn_id conn)]"
  by (simp add: handleConn_end_def Let_def emit_def Sessions_Remove_def split: option.splits)

lemma handleConn_end_trace:
  "\<exists>evs. trace (handleConn_end conn sid w) = trace w @ evs
     \<and> (\<forall>sid' h. EvSessionsRemove sid' \<in> set evs \<or> EvGoOnSessionClose h sid' \<in> set evs
           \<longrightarrow> sid' = sid)"
  unfolding handleConn_end_trace_eq by (simp split: option.splits)

lemma hc_inv_Start: "hc_inv w0 (HC_Start, w') = (trace w' = trace w0)"
  by (simp add: hc_inv_def)

lemma hc_inv_Waiting:
  "hc_inv w0 (HC_Waiting s, w') =
     (\<exists>evs. trace w' = trace w0 @ evs \<and> s \<in> set (registry w')
        \<and> (\<forall>sid h. EvSessionsRemove sid \<notin> set evs \<and> EvGoOnSessionClose h sid \<notin> set evs))"
  by (simp add: hc_inv_def)

lemma hc_inv_Done:
  "hc_inv w0 (HC_Done, w') =
     (\<exists>evs. trace w' = trace w0 @ evs
        \<and> (\<forall>sid h. EvSessionsRemove sid \<in> set evs \<or> EvGoOnSessionClose h sid \<in> set evs
               \<longrightarrow> close_signal_fired sid w'))"
  by (simp add: hc_inv_def)

lemma hc_inv_step: "hc_inv w0 cfg \<Longrightarrow> hc_inv w0 (handleConn_step conn cfg)"
proof -
  assume inv: "hc_inv w0 cfg"
  obtain st w where cfg: "cfg = (st, w)" by (cases cfg)
  show ?thesis
  proof (cases st)
    case HC_Start
    then have tr: "trace w = trace w0"
      using inv cfg by (simp add: hc_inv_Start)
    obtain evs' where b: "trace (snd (handleConn_begin conn w)) = trace w @ evs'"
      "\<forall>sid h. EvSessionsRemove sid \<notin> set evs' \<and> EvGoOnSessionClose h sid \<notin> set evs'"
      using handleConn_begin_trace [of conn w] by blast
    have "hc_inv w0 (HC_Waiting (next_id w), snd (handleConn_begin conn w))"
      unfolding hc_inv_Waiting using b tr handleConn_begin_registry [of w conn] by auto
    moreover obtain sid wb where hb: "handleConn_begin conn w = (sid, wb)"
      by (cases "handleConn_begin conn w")
    ultimately show ?thesis
      using handleConn_begin_sid [of conn w] by (simp add: cfg HC_Start)
  next
    case (HC_Waiting s)
    show ?thesis
    proof (cases "close_signal_fired s w")
      case False
      then show ?thesis
        using inv by (simp add: cfg HC_Waiting)
    next
      case True
      from inv obtain evs where tr: "trace w = trace w0 @ evs"
        and no: "\<forall>sid h. EvSessionsRemove sid \<notin> set evs \<and> EvGoOnSessionClose h sid \<notin> set evs"
        unfolding cfg HC_Waiting hc_inv_Waiting by blast
      let ?w' = "handleConn_end conn s (emit (EvRecvClosed s) w)"
      obtain evs' where t': "trace ?w' = trace (emit (EvRecvClosed s) w) @ evs'"
        and only: "\<forall>sid' h. EvSessionsRemove sid' \<in> set evs'
            \<or> EvGoOnSessionClose h sid' \<in> set evs' \<longrightarrow> sid' = s"
        using handleConn_end_trace [of conn s "emit (EvRecvClosed s) w"] by blast
      have f: "close_signal_fired s ?w'"
        using True by (simp add: handleConn_end_fired fired_emit)
      have 1: "trace ?w' = trace w0 @ (evs @ EvRecvClosed s # evs')"
        using t' tr by (simp add: emit_def)
      have 2: "\<forall>sid h. EvSessionsRemove sid \<in> set (evs @ EvRecvClosed s # evs')
           \<or> EvGoOnSessionClose h sid \<in> set (evs @ EvRecvClosed s # evs')
           \<longrightarrow> close_signal_fired sid ?w'"
        using no only f by auto
      have "hc_inv w0 (HC_Done, ?w')"
        unfolding hc_inv_Done using 1 2 by blast
      then show ?thesis
        using True by (simp add: cfg HC_Waiting)
    qed
  next
    case HC_Done
    then show ?thesis
      using inv by (simp add: cfg)
  qed
qed

lemma hc_inv_env: "hc_inv w0 (st, w) \<Longrightarrow> hc_inv w0 (st, Session_Close sid w)"
proof (cases st)
  case HC_Start
  assume "hc_inv w0 (st, w)"
  then show ?thesis
    by (simp add: HC_Start hc_inv_Start trace_Session_Close)
next
  case (HC_Waiting s)
  assume "hc_inv w0 (st, w)"
  then show ?thesis
    by (simp add: HC_Waiting hc_inv_Waiting trace_Session_Close registry_Session_Close)
next
  case HC_Done
  assume "hc_inv w0 (st, w)"
  then obtain evs where "trace w = trace w0 @ evs"
    and "\<forall>sid h. EvSessionsRemove sid \<in> set evs \<or> EvGoOnSessionClose h sid \<in> set evs
               \<longrightarrow> close_signal_fired sid w"
    unfolding HC_Done hc_inv_Done by blast
  then have "trace (Session_Close sid w) = trace w0 @ evs
     \<and> (\<forall>sid' h. EvSessionsRemove sid' \<in> set evs \<or> EvGoOnSessionClose h sid' \<in> set evs
               \<longrightarrow> close_signal_fired sid' (Session_Close sid w))"
    by (simp add: trace_Session_Close fired_Session_Close_mono)
  then show ?thesis
    unfolding HC_Done hc_inv_Done by blast
qed

lemma hc_inv_run: "hc_inv w0 cfg \<Longrightarrow> hc_inv w0 (handleConn_run conn ss cfg)"
proof (induction conn ss cfg rule: handleConn_run.induct)
  case (1 conn cfg)
  then show ?case by simp
next
  case (2 conn ss cfg)
  then show ?case by (simp add: hc_inv_step)
next
  case (3 conn sid ss st w)
  then show ?case by (simp add: hc_inv_env)
qed

lemma Serve_net_ok: "Serve net_ok ios '':8000'' (w_new opt) = for_loop ios (w_started opt)"
  using Serve_runs_for_loop [of net_ok "'':8000''" "'':8000''" lis_ok "w_new opt" ios]
  by (simp add: net_ok_def w_new_simps w_started_def)

lemma w_started_simps:
  "\<not> isStopped (w_started opt)"
  "Listener (srv (w_started opt)) = Some lis_ok"
  "socketReadBufferSize (srv (w_started opt_tuned)) = 4096"
  "spawned (w_started opt) = []"
  by (simp_all add: w_started_def isStopped_def w_new_def NewServer_def Let_def opt_tuned_def)

lemma run_closed:
  "fst (handleConn_run conn_ok [Run, EnvSessionClose 1, Run] (HC_Start, w_new opt_zero)) = HC_Done
   \<and> new_events (w_new opt_zero)
        (snd (handleConn_run conn_ok [Run, EnvSessionClose 1, Run] (HC_Start, w_new opt_zero)))
      = [EvNewSession 1 7, EvSessionsAdd 1, EvGoOnSessionCreate (UserHook 1) 1,
         EvGoReadInbound 1 0, EvGoWriteOutbound 1 0 1, EvRecvClosed 1, EvSessionsRemove 1,
         EvGoOnSessionClose (UserHook 2) 1, EvConnClose 7]
   \<and> registry (snd (handleConn_run conn_ok [Run, EnvSessionClose 1, Run] (HC_Start, w_new opt_zero))) = []"
  by (simp add: handleConn_begin_def newSession_def w_new_def NewServer_def opt_zero_def Let_def
      emit_def Sessions_Add_def Session_Close_def close_signal_fired_def handleConn_end_def
      Sessions_Remove_def new_events_def conn_ok_def DefaultWriteAttemptTimes_def)

lemma run_pending:
  "fst (handleConn_run conn_ok [Run, Run] (HC_Start, w_new opt_zero)) = HC_Waiting 1
   \<and> new_events (w_new opt_zero)
        (snd (handleConn_run conn_ok [Run, Run] (HC_Start, w_new opt_zero)))
      = [EvNewSession 1 7, EvSessionsAdd 1, EvGoOnSessionCreate (UserHook 1) 1,
         EvGoReadInbound 1 0, EvGoWriteOutbound 1 0 1]
   \<and> \<not> close_signal_fired 1 (snd (handleConn_run conn_ok [Run, Run] (HC_Start, w_new opt_zero)))"
  by (simp add: handleConn_begin_def newSession_def w_new_def NewServer_def opt_zero_def Let_def
      emit_def Sessions_Add_def Session_Close_def close_signal_fired_def handleConn_end_def
      Sessions_Remove_def new_events_def conn_ok_def DefaultWriteAttemptTimes_def)

section \<open>The claims\<close>

subsection \<open>Shutdown\<close>

text \<open>
  C1. A call of \<open>Stop\<close> on a server that is listening and has not been stopped before
  returns, and what it returns is the result of closing the listening socket. By then
  it has done, in this order and nothing else: closed the \<open>stopped\<close> channel, called
  \<open>Close\<close> on every session of the registry (in the order \<open>Range\<close> visits them),
  stopped the router, closed the listener. So at its return the stopped signal is set,
  the router is stopped and the close signal of every registered session has fired.
\<close>

theorem Stop_order:
  assumes "stopped (srv w) = Open" and "Listener (srv w) = Some lis"
  shows "fst (Stop w) = Returned (lis_Close_err lis)
    \<and> trace (snd (Stop w)) =
        trace w @ [EvCloseStopped] @ map EvSessionClose (registry w) @ [EvRouterStop, EvListenerClose]
    \<and> stopped (srv (snd (Stop w))) = Closed
    \<and> router_stopped (router (srv (snd (Stop w))))
    \<and> (\<forall>sid \<in> set (registry w). heap w sid \<noteq> None \<longrightarrow> close_signal_fired sid (snd (Stop w)))"
proof -
  let ?w1 = "emit EvCloseStopped (w\<lparr>srv := (srv w)\<lparr>stopped := Closed\<rparr>\<rparr>)"
  let ?w2 = "Range_Close (registry w) ?w1"
  have reg: "registry ?w1 = registry w"
    by (simp add: emit_def)
  have S: "Stop w =
      (Returned (lis_Close_err lis), emit EvListenerClose (Router_stop (emit EvRouterStop ?w2)))"
    using assms by (simp add: Stop_def Let_def reg srv_Range_Close emit_def Router_stop_def)
  have T: "trace (snd (Stop w)) =
      trace w @ [EvCloseStopped] @ map EvSessionClose (registry w) @ [EvRouterStop, EvListenerClose]"
    by (simp add: S emit_def Router_stop_def trace_Range_Close)
  have R: "stopped (srv (snd (Stop w))) = Closed \<and> router_stopped (router (srv (snd (Stop w))))"
    by (simp add: S emit_def Router_stop_def srv_Range_Close)
  have F: "close_signal_fired sid (snd (Stop w))"
    if "sid \<in> set (registry w)" "heap w sid \<noteq> None" for sid
  proof -
    have "heap ?w1 sid \<noteq> None"
      using that by (simp add: emit_def)
    then have "close_signal_fired sid ?w2"
      using that(1) by (rule fired_Range_Close [rotated])
    then show ?thesis
      by (simp add: S close_signal_fired_def emit_def Router_stop_def)
  qed
  show ?thesis using S T R F by simp
qed

theorem Stop_order_witness:
  "stopped (srv (w_serving opt_zero lis_bad_close)) = Open
   \<and> Listener (srv (w_serving opt_zero lis_bad_close)) = Some lis_bad_close
   \<and> fst (Stop (w_serving opt_zero lis_bad_close))
       = Returned (Some (PlainError ''use of closed network connection''))
   \<and> trace (snd (Stop (w_serving opt_zero lis_bad_close)))
       = [EvCloseStopped, EvSessionClose 2, EvSessionClose 1, EvRouterStop, EvListenerClose]
   \<and> close_signal_fired 1 (snd (Stop (w_serving opt_zero lis_bad_close)))
   \<and> close_signal_fired 2 (snd (Stop (w_serving opt_zero lis_bad_close)))"
  using Stop_order [of "w_serving opt_zero lis_bad_close" lis_bad_close]
  by (simp add: w_serving_simps w_serving_heap lis_simps)

text \<open>
  C9. \<open>Stop\<close> closes the \<open>stopped\<close> channel without a guard, so whatever the first call
  did, a second call on the same server panics with ``close of closed channel'' at
  line 190, before it touches a session, the router or the listener.
\<close>

theorem Stop_twice_panics:
  "Stop (snd (Stop w)) = (Panicked CloseOfClosedChannel, snd (Stop w))"
  by (simp add: Stop_def Let_def emit_def Router_stop_def srv_Range_Close
      split: chan.splits option.splits)

theorem Stop_twice_panics_witness:
  "fst (Stop (w_serving opt_zero lis_ok)) = Returned None
   \<and> fst (Stop (snd (Stop (w_serving opt_zero lis_ok)))) = Panicked CloseOfClosedChannel"
proof -
  have "fst (Stop (w_serving opt_zero lis_ok)) = Returned (lis_Close_err lis_ok)"
    by (simp add: Stop_def Let_def w_serving_simps emit_def Router_stop_def srv_Range_Close)
  then show ?thesis
    using Stop_twice_panics [of "w_serving opt_zero lis_ok"] by (simp add: lis_ok_def)
qed

subsection \<open>Configuration\<close>

text \<open>
  C4, as the code has it. \<open>NewServer\<close> replaces a queue size by its default, 1024, when
  the configured size is negative, and keeps every other size, 0 included: with 0 the
  router and the sessions get unbuffered queues.
\<close>

theorem NewServer_queue_sizes:
  "reqQueueSize (router (snd (NewServer opt))) =
     (if ReqQueueSize opt < 0 then DefaultReqQueueSize else ReqQueueSize opt)
   \<and> respQueueSize (snd (NewServer opt)) =
     (if RespQueueSize opt < 0 then DefaultRespQueueSize else RespQueueSize opt)"
  by (simp add: NewServer_def Let_def newRouter_def DefaultReqQueueSize_def
      DefaultRespQueueSize_def)

theorem NewServer_queue_sizes_witness:
  "ReqQueueSize opt_tuned < 0 \<and> RespQueueSize opt_tuned < 0
   \<and> reqQueueSize (router (snd (NewServer opt_tuned))) = 1024
   \<and> respQueueSize (snd (NewServer opt_tuned)) = 1024"
  using NewServer_queue_sizes [of opt_tuned]
  by (simp add: opt_tuned_def DefaultReqQueueSize_def DefaultRespQueueSize_def)

text \<open>
  C4, as the spec states it, fails at the size 0: it is \<open>\<le> 0\<close>, and the server does not
  use the default, for either queue.
\<close>

theorem NewServer_queue_size_zero_kept:
  "ReqQueueSize opt_zero \<le> 0
   \<and> reqQueueSize (router (snd (NewServer opt_zero))) \<noteq> DefaultReqQueueSize
   \<and> RespQueueSize opt_zero \<le> 0
   \<and> respQueueSize (snd (NewServer opt_zero)) \<noteq> DefaultRespQueueSize"
  by (simp add: opt_zero_def NewServer_def Let_def newRouter_def DefaultReqQueueSize_def
      DefaultRespQueueSize_def)

text \<open>
  C5. The server's write-attempt count is 1, the default, when the configured count is
  0 or negative, and the configured count otherwise.
\<close>

theorem NewServer_writeAttemptTimes:
  "writeAttemptTimes (snd (NewServer opt)) =
     (if WriteAttemptTimes opt \<le> 0 then DefaultWriteAttemptTimes else WriteAttemptTimes opt)
   \<and> DefaultWriteAttemptTimes = 1"
  by (simp add: NewServer_def Let_def DefaultWriteAttemptTimes_def)

theorem NewServer_writeAttemptTimes_witness:
  "WriteAttemptTimes opt_zero \<le> 0 \<and> writeAttemptTimes (snd (NewServer opt_zero)) = 1
   \<and> \<not> WriteAttemptTimes opt_tuned \<le> 0 \<and> writeAttemptTimes (snd (NewServer opt_tuned)) = 3"
  using NewServer_writeAttemptTimes [of opt_zero] NewServer_writeAttemptTimes [of opt_tuned]
  by (simp add: opt_zero_def opt_tuned_def)

subsection \<open>Startup\<close>

text \<open>
  C6. When the listen address does not resolve, \<open>Serve\<close> returns the resolver's error
  after that one call and has done nothing else: it has not opened a socket, not
  started the router's \<open>consumeRequest\<close> goroutine and not entered the accept loop. When
  the address resolves and opening the listening socket fails, \<open>Serve\<close> returns that
  error after one resolve and one listen call, again without the goroutine and without
  the accept loop. In both cases the server object is left as it was.
\<close>

theorem Serve_startup_error:
  "(ResolveTCPAddr net addr = Inl err \<longrightarrow>
      Serve net ios addr w = (Returned err, w\<lparr>trace := trace w @ [EvResolveTCPAddr addr]\<rparr>))
   \<and> (ResolveTCPAddr net addr = Inr address \<and> ListenTCP net address = Inl err \<longrightarrow>
      Serve net ios addr w =
        (Returned err, w\<lparr>trace := trace w @ [EvResolveTCPAddr addr, EvListenTCP address]\<rparr>))"
  by (simp add: Serve_def Let_def emit_def)

theorem Serve_startup_error_witness:
  "ResolveTCPAddr net_bad_addr ''localhost'' = Inl (PlainError ''missing port in address'')
   \<and> Serve net_bad_addr [io_conn conn_ok] ''localhost'' (w_new opt_zero)
       = (Returned (PlainError ''missing port in address''),
          (w_new opt_zero)\<lparr>trace := [EvResolveTCPAddr ''localhost'']\<rparr>)
   \<and> ResolveTCPAddr net_in_use '':80'' = Inr '':80''
   \<and> ListenTCP net_in_use '':80'' = Inl (PlainError ''address already in use'')
   \<and> Serve net_in_use [io_conn conn_ok] '':80'' (w_new opt_zero)
       = (Returned (PlainError ''address already in use''),
          (w_new opt_zero)\<lparr>trace := [EvResolveTCPAddr '':80'', EvListenTCP '':80'']\<rparr>)"
  using Serve_startup_error [where net = net_bad_addr and addr = "''localhost''"
      and err = "PlainError ''missing port in address''" and ios = "[io_conn conn_ok]"
      and w = "w_new opt_zero"]
    Serve_startup_error [where net = net_in_use and addr = "'':80''" and address = "'':80''"
      and err = "PlainError ''address already in use''" and ios = "[io_conn conn_ok]"
      and w = "w_new opt_zero"]
  by (simp add: net_bad_addr_def net_in_use_def w_new_simps)

subsection \<open>The accept loop\<close>

text \<open>
  C8. Once \<open>Stop\<close> has been called, the test at the top of the loop returns
  \<open>ErrServerStopped\<close>, whatever the environment would do next. And when the stopped
  signal is set while the loop is blocked in \<open>Accept\<close> and \<open>Accept\<close> then fails, with
  whatever error, the test after the failed \<open>Accept\<close> returns \<open>ErrServerStopped\<close> and
  not that error; the loop has then done nothing but that one \<open>Accept\<close>.
\<close>

theorem acceptLoop_after_Stop:
  "for_loop ios (snd (Stop w)) = (Returned ErrServerStopped, snd (Stop w))
   \<and> (isStopped w \<longrightarrow> for_loop ios w = (Returned ErrServerStopped, w))
   \<and> (\<not> isStopped w \<and> Listener (srv w) \<noteq> None \<and> stop_during_accept io
        \<and> accept_result io = Inl err \<longrightarrow>
       fst (for_loop (io # ios) w) = Returned ErrServerStopped
       \<and> new_events w (snd (for_loop (io # ios) w)) = [EvAccept])"
proof -
  have a: "for_loop ios (snd (Stop w)) = (Returned ErrServerStopped, snd (Stop w))"
    by (rule for_loop_stopped [OF isStopped_Stop])
  have b: "fst (for_loop (io # ios) w) = Returned ErrServerStopped
       \<and> new_events w (snd (for_loop (io # ios) w)) = [EvAccept]"
    if "\<not> isStopped w" "Listener (srv w) \<noteq> None" "stop_during_accept io"
      "accept_result io = Inl err"
  proof -
    have "loop_body io w =
        (Some (Returned ErrServerStopped), env_close_stopped True (emit EvAccept w))"
      using that by (simp add: loop_body_def Let_def isStopped_env_close_stopped)
    then show ?thesis
      using that by (auto simp add: new_events_def env_close_stopped_def emit_def)
  qed
  show ?thesis
    using a b for_loop_stopped by blast
qed

theorem acceptLoop_after_Stop_witness:
  "\<not> isStopped (w_serving opt_zero lis_ok) \<and> Listener (srv (w_serving opt_zero lis_ok)) \<noteq> None
   \<and> stop_during_accept io_closed_listener
   \<and> accept_result io_closed_listener = Inl (PlainError ''use of closed network connection'')
   \<and> fst (for_loop [io_closed_listener, io_conn conn_ok] (w_serving opt_zero lis_ok))
       = Returned ErrServerStopped
   \<and> isStopped (snd (Stop (w_serving opt_zero lis_ok)))
   \<and> fst (for_loop [io_conn conn_ok] (snd (Stop (w_serving opt_zero lis_ok))))
       = Returned ErrServerStopped"
  using acceptLoop_after_Stop [of "[io_conn conn_ok]" "w_serving opt_zero lis_ok"
      io_closed_listener "PlainError ''use of closed network connection''"]
    acceptLoop_after_Stop [of "[io_conn conn_ok]" "snd (Stop (w_serving opt_zero lis_ok))"]
  by (simp add: io_closed_listener_def w_serving_simps isStopped_Stop)

text \<open>
  C3, as the code has it. When \<open>Accept\<close> fails and the stopped signal is not set at
  the test of line 130: on a temporary network error the loop sleeps for
  \<open>tempErrDelay\<close>, 5 ms, and goes back to the top of the loop, where it accepts again
  unless the server has been stopped in the meantime; on any other error the loop ends
  and returns a new error whose text is ``accept err: '' followed by the text of the
  \<open>Accept\<close> error.
\<close>

theorem accept_error_not_stopped:
  assumes "\<not> isStopped w" and "Listener (srv w) \<noteq> None"
    and "accept_result io = Inl err" and "\<not> stop_during_accept io"
  shows "(is_temporary_net_error err \<longrightarrow>
            for_loop (io # ios) w =
              for_loop ios (env_close_stopped (stop_after_accept io)
                 (w\<lparr>trace := trace w @ [EvAccept, EvSleep tempErrDelay]\<rparr>)))
       \<and> (\<not> is_temporary_net_error err \<longrightarrow>
            for_loop (io # ios) w =
              (Returned (Errorf ''accept err: '' err), w\<lparr>trace := trace w @ [EvAccept]\<rparr>))
       \<and> tempErrDelay = 5000000"
proof -
  have w1: "env_close_stopped (stop_during_accept io) (emit EvAccept w) = emit EvAccept w"
    using assms(4) by (simp add: env_close_stopped_def)
  have ns: "\<not> isStopped (emit EvAccept w)"
    using assms(1) by (simp add: isStopped_emit)
  have t: "loop_body io w =
      (None, env_close_stopped (stop_after_accept io)
               (emit (EvSleep tempErrDelay) (emit EvAccept w)))"
    if "is_temporary_net_error err"
    using that assms(3) ns by (simp add: loop_body_def Let_def w1)
  have f: "loop_body io w = (Some (Returned (Errorf ''accept err: '' err)), emit EvAccept w)"
    if "\<not> is_temporary_net_error err"
    using that assms(3) ns by (simp add: loop_body_def Let_def w1)
  have e: "emit (EvSleep tempErrDelay) (emit EvAccept w) =
      w\<lparr>trace := trace w @ [EvAccept, EvSleep tempErrDelay]\<rparr>"
    by (simp add: emit_def)
  have e1: "emit EvAccept w = w\<lparr>trace := trace w @ [EvAccept]\<rparr>"
    by (simp add: emit_def)
  have T: "for_loop (io # ios) w =
      for_loop ios (env_close_stopped (stop_after_accept io)
         (w\<lparr>trace := trace w @ [EvAccept, EvSleep tempErrDelay]\<rparr>))"
    if "is_temporary_net_error err"
    using assms(1,2) t [OF that] by (auto simp add: e)
  have F: "for_loop (io # ios) w =
      (Returned (Errorf ''accept err: '' err), w\<lparr>trace := trace w @ [EvAccept]\<rparr>)"
    if "\<not> is_temporary_net_error err"
    using assms(1,2) f [OF that] by (auto simp add: e1)
  show ?thesis
    using T F by (simp add: tempErrDelay_def)
qed

theorem accept_error_not_stopped_witness:
  "\<not> isStopped (w_serving opt_zero lis_ok)
   \<and> Listener (srv (w_serving opt_zero lis_ok)) \<noteq> None
   \<and> accept_result io_timeout = Inl (NetError ''i/o timeout'' True)
   \<and> \<not> stop_during_accept io_timeout
   \<and> is_temporary_net_error (NetError ''i/o timeout'' True)
   \<and> accept_result io_fatal = Inl (PlainError ''too many open files'')
   \<and> \<not> stop_during_accept io_fatal
   \<and> \<not> is_temporary_net_error (PlainError ''too many open files'')
   \<and> for_loop [io_timeout, io_fatal] (w_serving opt_zero lis_ok) =
       (Returned (PlainError ''accept err: too many open files''),
        (w_serving opt_zero lis_ok)\<lparr>trace := [EvAccept, EvSleep 5000000, EvAccept]\<rparr>)"
proof -
  let ?w = "w_serving opt_zero lis_ok"
  let ?w1 = "?w\<lparr>trace := [EvAccept, EvSleep tempErrDelay]\<rparr>"
  have 1: "for_loop [io_timeout, io_fatal] ?w = for_loop [io_fatal] ?w1"
    using accept_error_not_stopped [of ?w io_timeout "NetError ''i/o timeout'' True" "[io_fatal]"]
    by (simp add: io_simps w_serving_simps env_close_stopped_def del: for_loop.simps)
  have 2: "for_loop [io_fatal] ?w1 =
      (Returned (PlainError ''accept err: too many open files''),
       ?w\<lparr>trace := [EvAccept, EvSleep 5000000, EvAccept]\<rparr>)"
    using accept_error_not_stopped [of ?w1 io_fatal "PlainError ''too many open files''" "[]"]
    by (simp add: io_simps w_serving_simps isStopped_trace_update Errorf_def tempErrDelay_def
        del: for_loop.simps)
  show ?thesis
    unfolding 1 2 by (simp add: io_simps w_serving_simps)
qed

text \<open>
  C3, as the spec states it, fails for an error that \<open>Accept\<close> returns after the server
  has been stopped. The permanent error of the closed listener is not passed on: the
  loop returns \<open>ErrServerStopped\<close>. And on a temporary error the loop neither sleeps
  nor accepts again, though a connection is waiting: it returns \<open>ErrServerStopped\<close>
  after the one \<open>Accept\<close>.
\<close>

theorem accept_error_when_stopped:
  "accept_result io_closed_listener = Inl (PlainError ''use of closed network connection'')
   \<and> \<not> is_temporary_net_error (PlainError ''use of closed network connection'')
   \<and> fst (for_loop [io_closed_listener] (w_serving opt_zero lis_ok)) = Returned ErrServerStopped
   \<and> fst (for_loop [io_closed_listener] (w_serving opt_zero lis_ok))
       \<noteq> Returned (Errorf ''accept err: '' (PlainError ''use of closed network connection''))
   \<and> accept_result io_stopped_timeout = Inl (NetError ''i/o timeout'' True)
   \<and> is_temporary_net_error (NetError ''i/o timeout'' True)
   \<and> fst (for_loop [io_stopped_timeout, io_conn conn_ok] (w_serving opt_zero lis_ok))
       = Returned ErrServerStopped
   \<and> trace (snd (for_loop [io_stopped_timeout, io_conn conn_ok] (w_serving opt_zero lis_ok)))
       = [EvAccept]"
  by (simp add: io_closed_listener_def io_stopped_timeout_def w_serving_simps
      isStopped_env_close_stopped loop_body_def Let_def env_close_stopped_fields emit_def
      Errorf_def)

text \<open>
  C10. When a configured socket option cannot be applied to an accepted TCP connection
  (the read buffer; or the write buffer, the read buffer having been set or not being
  configured; or the delay flag, after both), the accept loop ends there: it returns a
  new error whose text names the option and ends with the text of the failure, it does
  not start \<open>handleConn\<close> for the connection, and it does not call \<open>Accept\<close> again,
  whatever the environment would offer next.
\<close>

theorem socket_option_error_ends_loop:
  assumes "\<not> isStopped w" and "Listener (srv w) \<noteq> None"
    and "accept_result io = Inr c" and "is_TCPConn c"
  shows
   "(0 < socketReadBufferSize (srv w) \<and> SetReadBuffer_err c = Some e \<longrightarrow>
       fst (for_loop (io # ios) w) = Returned (Errorf ''conn set read buffer err: '' e)
     \<and> new_events w (snd (for_loop (io # ios) w)) =
         [EvAccept, EvSetReadBuffer (conn_id c) (socketReadBufferSize (srv w))]
     \<and> spawned (snd (for_loop (io # ios) w)) = spawned w)
  \<and> ((0 < socketReadBufferSize (srv w) \<longrightarrow> SetReadBuffer_err c = None)
      \<and> 0 < socketWriteBufferSize (srv w) \<and> SetWriteBuffer_err c = Some e \<longrightarrow>
       fst (for_loop (io # ios) w) = Returned (Errorf ''conn set write buffer err: '' e)
     \<and> new_events w (snd (for_loop (io # ios) w)) =
         [EvAccept]
         @ (if 0 < socketReadBufferSize (srv w)
            then [EvSetReadBuffer (conn_id c) (socketReadBufferSize (srv w))] else [])
         @ [EvSetWriteBuffer (conn_id c) (socketWriteBufferSize (srv w))]
     \<and> spawned (snd (for_loop (io # ios) w)) = spawned w)
  \<and> ((0 < socketReadBufferSize (srv w) \<longrightarrow> SetReadBuffer_err c = None)
      \<and> (0 < socketWriteBufferSize (srv w) \<longrightarrow> SetWriteBuffer_err c = None)
      \<and> socketSendDelay (srv w) \<and> SetNoDelay_err c = Some e \<longrightarrow>
       fst (for_loop (io # ios) w) = Returned (Errorf ''conn set no delay err: '' e)
     \<and> new_events w (snd (for_loop (io # ios) w)) =
         [EvAccept]
         @ (if 0 < socketReadBufferSize (srv w)
            then [EvSetReadBuffer (conn_id c) (socketReadBufferSize (srv w))] else [])
         @ (if 0 < socketWriteBufferSize (srv w)
            then [EvSetWriteBuffer (conn_id c) (socketWriteBufferSize (srv w))] else [])
         @ [EvSetNoDelay (conn_id c) False]
     \<and> spawned (snd (for_loop (io # ios) w)) = spawned w)"
  unfolding for_loop_Cons [OF assms(1,2)] loop_body_accepted [OF assms(3)]
  using assms(4)
  by (simp add: Let_def set_read_buffer_def set_write_buffer_def set_no_delay_def
      env_close_stopped_def emit_def new_events_def)

theorem socket_option_error_ends_loop_witness:
  "\<not> isStopped (w_started opt_tuned)
   \<and> Listener (srv (w_started opt_tuned)) \<noteq> None
   \<and> accept_result (io_conn conn_bad_read_buffer) = Inr conn_bad_read_buffer
   \<and> is_TCPConn conn_bad_read_buffer
   \<and> 0 < socketReadBufferSize (srv (w_started opt_tuned))
   \<and> SetReadBuffer_err conn_bad_read_buffer = Some (PlainError ''invalid argument'')
   \<and> fst (Serve net_ok [io_conn conn_bad_read_buffer, io_conn conn_ok] '':8000'' (w_new opt_tuned))
        = Returned (PlainError ''conn set read buffer err: invalid argument'')
   \<and> new_events (w_started opt_tuned)
        (snd (Serve net_ok [io_conn conn_bad_read_buffer, io_conn conn_ok] '':8000''
               (w_new opt_tuned)))
        = [EvAccept, EvSetReadBuffer 8 4096]
   \<and> spawned (snd (Serve net_ok [io_conn conn_bad_read_buffer, io_conn conn_ok] '':8000''
               (w_new opt_tuned))) = []"
proof -
  let ?r = "for_loop [io_conn conn_bad_read_buffer, io_conn conn_ok] (w_started opt_tuned)"
  have c: "is_TCPConn conn_bad_read_buffer"
    "SetReadBuffer_err conn_bad_read_buffer = Some (PlainError ''invalid argument'')"
    "conn_id conn_bad_read_buffer = 8"
    by (simp_all add: conn_bad_read_buffer_def)
  have "fst ?r = Returned (Errorf ''conn set read buffer err: '' (PlainError ''invalid argument''))
     \<and> new_events (w_started opt_tuned) (snd ?r) = [EvAccept, EvSetReadBuffer 8 4096]
     \<and> spawned (snd ?r) = spawned (w_started opt_tuned)"
    using socket_option_error_ends_loop [where w = "w_started opt_tuned"
        and io = "io_conn conn_bad_read_buffer" and c = conn_bad_read_buffer
        and e = "PlainError ''invalid argument''" and ios = "[io_conn conn_ok]"]
    by (simp add: w_started_simps io_simps c del: for_loop.simps)
  then show ?thesis
    by (simp add: Serve_net_ok w_started_simps io_simps c Errorf_def del: for_loop.simps)
qed

text \<open>
  C7, as the code has it. For an accepted connection on which every configured socket
  option can be applied, the pass through the loop body does this and nothing else, in
  this order: \<open>SetReadBuffer\<close> if the configured size is above 0, \<open>SetWriteBuffer\<close> if
  the configured size is above 0, \<open>SetNoDelay(false)\<close> if the send-delay flag is set,
  then \<open>go s.handleConn(conn)\<close>; after that the loop goes on. The goroutine, when it
  runs, makes the session for this connection, adds it to the registry, starts the
  session-created hook if there is one, then the inbound and then the outbound task,
  and waits at line 177; the session is then registered and open.
\<close>

theorem accepted_conn_handled:
  assumes "\<not> isStopped w" and "Listener (srv w) \<noteq> None" and "accept_result io = Inr c"
    and "0 < socketReadBufferSize (srv w) \<longrightarrow> is_TCPConn c \<and> SetReadBuffer_err c = None"
    and "0 < socketWriteBufferSize (srv w) \<longrightarrow> is_TCPConn c \<and> SetWriteBuffer_err c = None"
    and "socketSendDelay (srv w) \<longrightarrow> is_TCPConn c \<and> SetNoDelay_err c = None"
  shows
   "fst (loop_body io w) = None
    \<and> for_loop (io # ios) w = for_loop ios (snd (loop_body io w))
    \<and> new_events w (snd (loop_body io w)) =
         [EvAccept]
         @ (if 0 < socketReadBufferSize (srv w)
            then [EvSetReadBuffer (conn_id c) (socketReadBufferSize (srv w))] else [])
         @ (if 0 < socketWriteBufferSize (srv w)
            then [EvSetWriteBuffer (conn_id c) (socketWriteBufferSize (srv w))] else [])
         @ (if socketSendDelay (srv w) then [EvSetNoDelay (conn_id c) False] else [])
         @ [EvGoHandleConn (conn_id c)]
    \<and> spawned (snd (loop_body io w)) = spawned w @ [c]
    \<and> handleConn_step c (HC_Start, wh) = (HC_Waiting (next_id wh), snd (handleConn_begin c wh))
    \<and> new_events wh (snd (handleConn_begin c wh)) =
         [EvNewSession (next_id wh) (conn_id c), EvSessionsAdd (next_id wh)]
         @ (case OnSessionCreate (srv wh) of None \<Rightarrow> []
            | Some hook \<Rightarrow> [EvGoOnSessionCreate hook (next_id wh)])
         @ [EvGoReadInbound (next_id wh) (readTimeout (srv wh)),
            EvGoWriteOutbound (next_id wh) (writeTimeout (srv wh)) (writeAttemptTimes (srv wh))]
    \<and> next_id wh \<in> set (registry (snd (handleConn_begin c wh)))
    \<and> heap (snd (handleConn_begin c wh)) (next_id wh) =
         Some \<lparr>sess_id = next_id wh, sess_conn = c, sess_Packer = Packer (srv wh),
               sess_Codec = Codec (srv wh), sess_respQueueSize = respQueueSize (srv wh),
               sess_closed = Open, sess_conn_closed = False\<rparr>"
proof -
  have L: "fst (loop_body io w) = None
    \<and> new_events w (snd (loop_body io w)) =
         [EvAccept]
         @ (if 0 < socketReadBufferSize (srv w)
            then [EvSetReadBuffer (conn_id c) (socketReadBufferSize (srv w))] else [])
         @ (if 0 < socketWriteBufferSize (srv w)
            then [EvSetWriteBuffer (conn_id c) (socketWriteBufferSize (srv w))] else [])
         @ (if socketSendDelay (srv w) then [EvSetNoDelay (conn_id c) False] else [])
         @ [EvGoHandleConn (conn_id c)]
    \<and> spawned (snd (loop_body io w)) = spawned w @ [c]"
    unfolding loop_body_accepted [OF assms(3)]
    using assms(4,5,6)
    by (simp add: Let_def set_read_buffer_def set_write_buffer_def set_no_delay_def
        env_close_stopped_def emit_def new_events_def go_handleConn_def)
  have F: "for_loop (io # ios) w = for_loop ios (snd (loop_body io w))"
    using L for_loop_Cons [OF assms(1,2), of io ios] by (cases "loop_body io w") simp
  have H: "handleConn_step c (HC_Start, wh) =
      (HC_Waiting (next_id wh), snd (handleConn_begin c wh))"
    using handleConn_begin_sid [of c wh] by (cases "handleConn_begin c wh") simp
  have E: "new_events wh (snd (handleConn_begin c wh)) =
         [EvNewSession (next_id wh) (conn_id c), EvSessionsAdd (next_id wh)]
         @ (case OnSessionCreate (srv wh) of None \<Rightarrow> []
            | Some hook \<Rightarrow> [EvGoOnSessionCreate hook (next_id wh)])
         @ [EvGoReadInbound (next_id wh) (readTimeout (srv wh)),
            EvGoWriteOutbound (next_id wh) (writeTimeout (srv wh)) (writeAttemptTimes (srv wh))]"
    by (simp add: new_events_def handleConn_begin_trace_eq)
  show ?thesis
    using L F H E handleConn_begin_registry [of wh c] handleConn_begin_heap [of c wh] by simp
qed

theorem accepted_conn_handled_witness:
  "\<not> isStopped (w_serving opt_tuned lis_ok)
   \<and> Listener (srv (w_serving opt_tuned lis_ok)) \<noteq> None
   \<and> accept_result (io_conn conn_ok) = Inr conn_ok
   \<and> 0 < socketReadBufferSize (srv (w_serving opt_tuned lis_ok))
   \<and> 0 < socketWriteBufferSize (srv (w_serving opt_tuned lis_ok))
   \<and> socketSendDelay (srv (w_serving opt_tuned lis_ok))
   \<and> is_TCPConn conn_ok \<and> SetReadBuffer_err conn_ok = None
   \<and> SetWriteBuffer_err conn_ok = None \<and> SetNoDelay_err conn_ok = None
   \<and> new_events (w_serving opt_tuned lis_ok)
        (snd (loop_body (io_conn conn_ok) (w_serving opt_tuned lis_ok)))
      = [EvAccept, EvSetReadBuffer 7 4096, EvSetWriteBuffer 7 2048, EvSetNoDelay 7 False,
         EvGoHandleConn 7]
   \<and> spawned (snd (loop_body (io_conn conn_ok) (w_serving opt_tuned lis_ok))) = [conn_ok]
   \<and> handleConn_step conn_ok (HC_Start, w_new opt_tuned)
      = (HC_Waiting 1, snd (handleConn_begin conn_ok (w_new opt_tuned)))
   \<and> new_events (w_new opt_tuned) (snd (handleConn_begin conn_ok (w_new opt_tuned)))
      = [EvNewSession 1 7, EvSessionsAdd 1, EvGoOnSessionCreate (UserHook 1) 1,
         EvGoReadInbound 1 0, EvGoWriteOutbound 1 0 3]
   \<and> 1 \<in> set (registry (snd (handleConn_begin conn_ok (w_new opt_tuned))))"
  using accepted_conn_handled [where w = "w_serving opt_tuned lis_ok" and io = "io_conn conn_ok"
      and c = conn_ok and wh = "w_new opt_tuned" and ios = "[]"]
  by (simp add: w_serving_simps w_serving_tuned w_new_simps w_new_tuned io_conn_def conn_ok_def)

text \<open>
  C7, as the spec states it, fails for an accepted connection on which a configured
  option cannot be applied: with a read buffer size of 4096 configured and
  \<open>SetReadBuffer\<close> failing, the loop returns after that call; no \<open>handleConn\<close> is
  started for the connection, so no session is made and none is registered.
\<close>

theorem accepted_conn_not_handled:
  "accept_result (io_conn conn_bad_read_buffer) = Inr conn_bad_read_buffer
   \<and> fst (for_loop [io_conn conn_bad_read_buffer] (w_serving opt_tuned lis_ok))
       = Returned (PlainError ''conn set read buffer err: invalid argument'')
   \<and> trace (snd (for_loop [io_conn conn_bad_read_buffer] (w_serving opt_tuned lis_ok)))
       = [EvAccept, EvSetReadBuffer 8 4096]
   \<and> spawned (snd (for_loop [io_conn conn_bad_read_buffer] (w_serving opt_tuned lis_ok))) = []
   \<and> registry (snd (for_loop [io_conn conn_bad_read_buffer] (w_serving opt_tuned lis_ok)))
       = registry (w_serving opt_tuned lis_ok)"
  by (simp add: io_conn_def conn_bad_read_buffer_def w_serving_simps w_serving_tuned
      loop_body_def Let_def set_read_buffer_def env_close_stopped_def emit_def Errorf_def)

subsection \<open>Connection handling\<close>

text \<open>
  C2. Take any run of a \<open>handleConn\<close> goroutine, interleaved in any way with other
  goroutines closing sessions, and stop it at any point. If by then the goroutine has
  removed a session from the registry, or has started the session-closed hook for it,
  the close signal of that session has fired. While the goroutine waits at line 177
  its session is in the registry and it has done neither. And in a state where the
  close signal is still pending, an attempt of the waiting goroutine to go on changes
  nothing.
\<close>

theorem handleConn_waits_for_close_signal:
  assumes "handleConn_run conn ss (HC_Start, w) = (st, w')"
  shows "(EvSessionsRemove sid \<in> set (new_events w w') \<longrightarrow> close_signal_fired sid w')
       \<and> (EvGoOnSessionClose h sid \<in> set (new_events w w') \<longrightarrow> close_signal_fired sid w')
       \<and> (st = HC_Waiting sid \<longrightarrow>
            sid \<in> set (registry w') \<and> EvSessionsRemove sid \<notin> set (new_events w w')
            \<and> EvGoOnSessionClose h sid \<notin> set (new_events w w'))
       \<and> (\<not> close_signal_fired sid w' \<longrightarrow>
            handleConn_step conn (HC_Waiting sid, w') = (HC_Waiting sid, w'))"
proof -
  have "hc_inv w (HC_Start, w)"
    by (simp add: hc_inv_Start)
  then have inv: "hc_inv w (st, w')"
    using hc_inv_run [of w "(HC_Start, w)" conn ss] assms by simp
  have blocked: "\<not> close_signal_fired sid w' \<longrightarrow>
      handleConn_step conn (HC_Waiting sid, w') = (HC_Waiting sid, w')"
    by simp
  show ?thesis
  proof (cases st)
    case HC_Start
    then show ?thesis
      using inv blocked by (simp add: hc_inv_Start new_events_def)
  next
    case (HC_Waiting s)
    from inv obtain evs where "trace w' = trace w @ evs" and "s \<in> set (registry w')"
      and "\<forall>sid h. EvSessionsRemove sid \<notin> set evs \<and> EvGoOnSessionClose h sid \<notin> set evs"
      unfolding hc_inv_Waiting HC_Waiting by blast
    moreover from this(1) have "new_events w w' = evs"
      by (simp add: new_events_def)
    ultimately show ?thesis
      using blocked HC_Waiting by auto
  next
    case HC_Done
    from inv obtain evs where "trace w' = trace w @ evs"
      and fired: "\<forall>sid h. EvSessionsRemove sid \<in> set evs \<or> EvGoOnSessionClose h sid \<in> set evs
               \<longrightarrow> close_signal_fired sid w'"
      unfolding hc_inv_Done HC_Done by blast
    from this(1) have "new_events w w' = evs"
      by (simp add: new_events_def)
    then show ?thesis
      using blocked HC_Done fired by blast
  qed
qed

theorem handleConn_waits_for_close_signal_witness:
  "fst (handleConn_run conn_ok [Run, EnvSessionClose 1, Run] (HC_Start, w_new opt_zero)) = HC_Done
   \<and> EvSessionsRemove 1 \<in> set (new_events (w_new opt_zero)
        (snd (handleConn_run conn_ok [Run, EnvSessionClose 1, Run] (HC_Start, w_new opt_zero))))
   \<and> EvGoOnSessionClose (UserHook 2) 1 \<in> set (new_events (w_new opt_zero)
        (snd (handleConn_run conn_ok [Run, EnvSessionClose 1, Run] (HC_Start, w_new opt_zero))))
   \<and> close_signal_fired 1
        (snd (handleConn_run conn_ok [Run, EnvSessionClose 1, Run] (HC_Start, w_new opt_zero)))
   \<and> fst (handleConn_run conn_ok [Run, Run] (HC_Start, w_new opt_zero)) = HC_Waiting 1
   \<and> \<not> close_signal_fired 1 (snd (handleConn_run conn_ok [Run, Run] (HC_Start, w_new opt_zero)))
   \<and> 1 \<in> set (registry (snd (handleConn_run conn_ok [Run, Run] (HC_Start, w_new opt_zero))))
   \<and> EvSessionsRemove 1 \<notin> set (new_events (w_new opt_zero)
        (snd (handleConn_run conn_ok [Run, Run] (HC_Start, w_new opt_zero))))
   \<and> handleConn_step conn_ok
        (HC_Waiting 1, snd (handleConn_run conn_ok [Run, Run] (HC_Start, w_new opt_zero)))
      = (HC_Waiting 1, snd (handleConn_run conn_ok [Run, Run] (HC_Start, w_new opt_zero)))"
proof -
  let ?r1 = "handleConn_run conn_ok [Run, EnvSessionClose 1, Run] (HC_Start, w_new opt_zero)"
  let ?r2 = "handleConn_run conn_ok [Run, Run] (HC_Start, w_new opt_zero)"
  have p1: "?r1 = (fst ?r1, snd ?r1)" and p2: "?r2 = (fst ?r2, snd ?r2)"
    by simp_all
  note t1 = handleConn_waits_for_close_signal [OF p1, where sid = 1 and h = "UserHook 2"]
  note t2 = handleConn_waits_for_close_signal [OF p2, where sid = 1 and h = "UserHook 2"]
  have m1: "EvSessionsRemove 1 \<in> set (new_events (w_new opt_zero) (snd ?r1))"
    and m2: "EvGoOnSessionClose (UserHook 2) 1 \<in> set (new_events (w_new opt_zero) (snd ?r1))"
    using run_closed by simp_all
  have f1: "close_signal_fired 1 (snd ?r1)"
    using t1 m1 by blast
  have w2: "fst ?r2 = HC_Waiting 1" and n2: "\<not> close_signal_fired 1 (snd ?r2)"
    using run_pending by blast+
  have r2: "1 \<in> set (registry (snd ?r2))
      \<and> EvSessionsRemove 1 \<notin> set (new_events (w_new opt_zero) (snd ?r2))"
    using t2 w2 by blast
  have s2: "handleConn_step conn_ok (HC_Waiting 1, snd ?r2) = (HC_Waiting 1, snd ?r2)"
    using t2 n2 by blast
  show ?thesis
    using run_closed m1 m2 f1 w2 n2 r2 s2 by blast
qed

end
